theory Spec2Isabelle
  imports Main "HOL-Library.Word"
begin

section \<open>The eSIM simulator of \<^verbatim>\<open>src/esim.py\<close>\<close>

text \<open>
  The source is one Python module: the class \<^verbatim>\<open>eSIM\<close> (a profile: identifiers,
  operator, state, usage counter, event log) and the Tkinter controller
  \<^verbatim>\<open>eSIMManagerApp\<close>, which owns the list \<^verbatim>\<open>esims\<close> and the reference
  \<^verbatim>\<open>selected_esim\<close>.

  Conventions of the embedding.
  \<^item> A Python \<^verbatim>\<open>str\<close> is a \<^typ>\<open>string\<close>, one \<^typ>\<open>char\<close> per code point. The only
    non-ASCII letter of the source's literals is U+00E9, written \<^term>\<open>CHR 0xE9\<close>.
  \<^item> A Python \<^verbatim>\<open>int\<close> is an \<^typ>\<open>int\<close>. Every amount that the module itself passes to
    \<^verbatim>\<open>add_data_usage\<close> is an \<^verbatim>\<open>int\<close> (1250, 450, \<^verbatim>\<open>random.randint(1, 20)\<close>).
  \<^item> An exception is a value of \<open>py_error\<close>. A call that can raise after it has changed
    the object returns the exception, if any, together with the object as the call
    leaves it.
  \<^item> A method that mutates \<^verbatim>\<open>self\<close> takes the object and returns the updated object,
    paired with the method's return value when it has one.
  \<^item> What a call reads from outside the program is a parameter of the model: the text
    \<^verbatim>\<open>datetime.now().strftime(...)\<close> (\<open>now\<close>), the results of \<^verbatim>\<open>random.randint\<close>,
    the SHA-256 digest of a fresh UUID, the answer of a dialog, the tuple
    \<^verbatim>\<open>curselection()\<close> of the list box.
  \<^item> Message boxes and the refresh of widgets change no field of \<^verbatim>\<open>eSIM\<close>, and neither
    \<^verbatim>\<open>esims\<close> nor \<^verbatim>\<open>selected_esim\<close>; they are left out.
\<close>

subsection \<open>Exceptions\<close>

datatype py_error = IndexError | KeyError | ValueError

subsection \<open>Python's \<^verbatim>\<open>str\<close> of an integer\<close>

fun str_nat :: "nat \<Rightarrow> string" where
  "str_nat n =
     (if n < 10 then [''0123456789'' ! n]
      else str_nat (n div 10) @ [''0123456789'' ! (n mod 10)])"

declare str_nat.simps [simp del]

definition str_int :: "int \<Rightarrow> string" where
  "str_int i = (if i < 0 then ''-'' @ str_nat (nat (- i)) else str_nat (nat i))"

text \<open>
  The interpreter converts an \<^verbatim>\<open>int\<close> to decimal text only up to a number of digits,
  the sign not counted: 4300 unless \<^verbatim>\<open>sys.set_int_max_str_digits\<close> has changed it.
  Beyond that, \<^verbatim>\<open>str(i)\<close> and \<^verbatim>\<open>f"{i}"\<close> raise \<^verbatim>\<open>ValueError\<close>. \<open>str_int\<close> is the
  text where there is one.
\<close>

definition max_str_digits :: nat where
  "max_str_digits = 4300"

definition py_str :: "int \<Rightarrow> py_error + string" where
  "py_str i =
     (if max_str_digits < length (str_nat (nat \<bar>i\<bar>)) then Inl ValueError
      else Inr (str_int i))"

subsection \<open>The class \<^verbatim>\<open>eSIM\<close>\<close>

record eSIM =
  imsi :: string
  iccid :: string
  msisdn :: string
  operator :: string
  profile_state :: string
  ki :: string
  opc :: string
  data_usage :: int
  data_limit :: int
  events :: "string list"

text \<open>\<^verbatim>\<open>log_event\<close>: \<^verbatim>\<open>self.events.append(f"[{timestamp}] {description}")\<close>.\<close>

definition log_event :: "string \<Rightarrow> string \<Rightarrow> eSIM \<Rightarrow> eSIM" where
  "log_event now description self =
     self\<lparr>events := events self @ [''['' @ now @ ''] '' @ description]\<rparr>"

definition activate :: "string \<Rightarrow> eSIM \<Rightarrow> bool \<times> eSIM" where
  "activate now self =
     (if profile_state self \<noteq> ''Active''
      then (True, log_event now ''Activation du profil'' (self\<lparr>profile_state := ''Active''\<rparr>))
      else (False, self))"

definition deactivate :: "string \<Rightarrow> eSIM \<Rightarrow> bool \<times> eSIM" where
  "deactivate now self =
     (if profile_state self \<noteq> ''Inactive''
      then (True, log_event now (''D'' @ [CHR 0xE9] @ ''sactivation du profil'')
                    (self\<lparr>profile_state := ''Inactive''\<rparr>))
      else (False, self))"

definition disable :: "string \<Rightarrow> eSIM \<Rightarrow> bool \<times> eSIM" where
  "disable now self =
     (if profile_state self \<noteq> ''Disabled''
      then (True, log_event now
                    (''D'' @ [CHR 0xE9] @ ''sactivation d'' @ [CHR 0xE9] @ ''finitive du profil'')
                    (self\<lparr>profile_state := ''Disabled''\<rparr>))
      else (False, self))"

text \<open>
  \<^verbatim>\<open>add_data_usage\<close> has no check of \<open>amount\<close>: it adds and logs. \<open>add_data_usage\<close>
  is the object after a call that returns. \<open>add_data_usage_call\<close> is the call with its
  outcome: line 81 has already changed \<^verbatim>\<open>data_usage\<close> when the f-string of line 82
  formats the amount, so a \<^verbatim>\<open>ValueError\<close> there leaves the method with the counter
  changed and no event appended. The two agree on every amount of at most 4300 digits
  (\<open>add_data_usage_call_returns\<close> below), which covers the amounts that the module
  passes: 1250, 450 and the draws from 1 to 20.
\<close>

definition add_data_usage :: "string \<Rightarrow> int \<Rightarrow> eSIM \<Rightarrow> eSIM" where
  "add_data_usage now amount self =
     log_event now (''Consommation de '' @ str_int amount @ '' Mo de donn'' @ [CHR 0xE9] @ ''es'')
       (self\<lparr>data_usage := data_usage self + amount\<rparr>)"

definition add_data_usage_call :: "string \<Rightarrow> int \<Rightarrow> eSIM \<Rightarrow> py_error option \<times> eSIM" where
  "add_data_usage_call now amount self =
     (let self' = self\<lparr>data_usage := data_usage self + amount\<rparr> in
      case py_str amount of
        Inl e \<Rightarrow> (Some e, self')
      | Inr text \<Rightarrow>
          (None, log_event now
                   (''Consommation de '' @ text @ '' Mo de donn'' @ [CHR 0xE9] @ ''es'') self'))"

text \<open>
  \<^verbatim>\<open>reset_data_usage\<close>, likewise the object after a call that returns: the f-string
  formats the old counter after \<^verbatim>\<open>data_usage\<close> has been set to 0.
\<close>

definition reset_data_usage :: "string \<Rightarrow> eSIM \<Rightarrow> eSIM" where
  "reset_data_usage now self =
     (let old_usage = data_usage self in
      log_event now
        (''R'' @ [CHR 0xE9] @ ''initialisation du compteur de donn'' @ [CHR 0xE9] @ ''es (ancien: ''
           @ str_int old_usage @ '' Mo)'')
        (self\<lparr>data_usage := 0\<rparr>))"

text \<open>\<^verbatim>\<open>eSIM.change_operator\<close> has no check of \<open>new_operator\<close>.\<close>

definition change_operator :: "string \<Rightarrow> string \<Rightarrow> eSIM \<Rightarrow> eSIM" where
  "change_operator now new_operator self =
     (let old_operator = operator self in
      log_event now
        (''Changement d'op'' @ [CHR 0xE9] @ ''rateur: '' @ old_operator @ '' -> '' @ new_operator)
        (self\<lparr>operator := new_operator\<rparr>))"

subsection \<open>The generators\<close>

text \<open>
  \<^verbatim>\<open>''.join([str(random.randint(0, 9)) for _ in range(n)])\<close>, where \<open>randint k\<close> is the
  result of the \<open>k\<close>-th call of \<^verbatim>\<open>random.randint(0, 9)\<close> from here on.
\<close>

definition random_digits :: "nat \<Rightarrow> (nat \<Rightarrow> int) \<Rightarrow> string" where
  "random_digits n randint = concat (map (\<lambda>k. str_int (randint k)) [0..<n])"

definition generate_imsi :: "(nat \<Rightarrow> int) \<Rightarrow> string" where
  "generate_imsi randint =
     (let mcc = ''208''; mnc = ''01''; msin = random_digits 10 randint
      in mcc @ mnc @ msin)"

definition generate_iccid :: "(nat \<Rightarrow> int) \<Rightarrow> string" where
  "generate_iccid randint =
     (let iin = ''8933''; ccn = random_digits 15 randint in iin @ ccn)"

definition generate_msisdn :: "(nat \<Rightarrow> int) \<Rightarrow> string" where
  "generate_msisdn randint = ''336'' @ random_digits 8 randint"

text \<open>
  \<^verbatim>\<open>hexdigest()\<close> writes every byte of a digest as two lowercase hexadecimal digits.
  The parameter of \<open>generate_auth_key\<close> is the digest
  \<^verbatim>\<open>hashlib.sha256(str(uuid.uuid4()).encode()).digest()\<close>, which has 32 bytes.
\<close>

definition hexdigest :: "8 word list \<Rightarrow> string" where
  "hexdigest bs =
     concat (map (\<lambda>b. [''0123456789abcdef'' ! (unat b div 16),
                        ''0123456789abcdef'' ! (unat b mod 16)]) bs)"

definition generate_auth_key :: "8 word list \<Rightarrow> string" where
  "generate_auth_key digest = take 32 (hexdigest digest)"

text \<open>The shapes that the generated identifiers are asked to have.\<close>

definition is_digit :: "char \<Rightarrow> bool" where
  "is_digit c = (c \<in> set ''0123456789'')"

definition is_lower_hex :: "char \<Rightarrow> bool" where
  "is_lower_hex c = (c \<in> set ''0123456789abcdef'')"

subsection \<open>The constructor\<close>

text \<open>
  \<^verbatim>\<open>x or y\<close> on an optional string: \<^verbatim>\<open>None\<close> and the empty string are false, and
  \<open>y\<close> is evaluated only then.
\<close>

fun truthy :: "string option \<Rightarrow> bool" where
  "truthy None = False"
| "truthy (Some s) = (s \<noteq> [])"

definition py_or :: "string option \<Rightarrow> string \<Rightarrow> string" where
  "py_or a b = (case a of None \<Rightarrow> b | Some s \<Rightarrow> if s \<noteq> [] then s else b)"

record entropy =
  randint09 :: "nat \<Rightarrow> int"
  digest_ki :: "8 word list"
  digest_opc :: "8 word list"

text \<open>
  \<^verbatim>\<open>eSIM.__init__\<close>. A generator that runs consumes its draws from the stream
  \<open>randint09\<close>; one that is skipped consumes none.
\<close>

definition eSIM_init ::
  "entropy \<Rightarrow> string \<Rightarrow> string option \<Rightarrow> string option \<Rightarrow> string option \<Rightarrow> string option \<Rightarrow> eSIM"
where
  "eSIM_init src now imsi0 iccid0 msisdn0 operator0 =
     (let r0 = randint09 src;
          r1 = (if truthy imsi0 then r0 else (\<lambda>k. r0 (k + 10)));
          r2 = (if truthy iccid0 then r1 else (\<lambda>k. r1 (k + 15)))
      in log_event now (''Cr'' @ [CHR 0xE9] @ ''ation de l'eSIM'')
           \<lparr>imsi = py_or imsi0 (generate_imsi r0),
            iccid = py_or iccid0 (generate_iccid r1),
            msisdn = py_or msisdn0 (generate_msisdn r2),
            operator = py_or operator0 (''Op'' @ [CHR 0xE9] @ ''rateurDemo''),
            profile_state = ''Inactive'',
            ki = generate_auth_key (digest_ki src),
            opc = generate_auth_key (digest_opc src),
            data_usage = 0,
            data_limit = 10000,
            events = []\<rparr>)"

subsection \<open>The controller \<^verbatim>\<open>eSIMManagerApp\<close>\<close>

text \<open>
  \<^verbatim>\<open>selected_esim\<close> is \<^verbatim>\<open>None\<close> or an alias of an element of \<^verbatim>\<open>esims\<close>: the source
  assigns it \<^verbatim>\<open>self.esims[0]\<close>, \<^verbatim>\<open>self.esims[index]\<close> or the object it has just
  appended, and never removes an element. The model keeps the position of that element,
  so that a mutation through \<^verbatim>\<open>selected_esim\<close> is a mutation of the list element.
\<close>

record app =
  esims :: "eSIM list"
  selected_esim :: "nat option"


text \<open>\<^verbatim>\<open>create_demo_esims\<close>; \<open>clock k\<close> is the \<open>k\<close>-th reading of the clock in the call.\<close>

definition create_demo_esims ::
  "entropy \<Rightarrow> entropy \<Rightarrow> entropy \<Rightarrow> (nat \<Rightarrow> string) \<Rightarrow> eSIM list" where
  "create_demo_esims s1 s2 s3 clock =
     (let esim1 = eSIM_init s1 (clock 0) None None None (Some ''Orange'');
          esim1 = snd (activate (clock 1) esim1);
          esim1 = add_data_usage (clock 2) 1250 esim1;
          esim2 = eSIM_init s2 (clock 3) None None None (Some ''SFR'');
          esim3 = eSIM_init s3 (clock 4) None None None (Some ''Bouygues Telecom'');
          esim3 = snd (activate (clock 5) esim3);
          esim3 = add_data_usage (clock 6) 450 esim3
      in [esim1, esim2, esim3])"




definition app_change_operator :: "string \<Rightarrow> string option \<Rightarrow> app \<Rightarrow> app" where
  "app_change_operator now answer self =
     (case selected_esim self of
        None \<Rightarrow> self
      | Some i \<Rightarrow>
          (case answer of
             None \<Rightarrow> self
           | Some new_operator \<Rightarrow>
               if new_operator \<noteq> []
               then self\<lparr>esims := (esims self)[i := change_operator now new_operator (esims self ! i)]\<rparr>
               else self))"

text \<open>
  The ticker, \<^verbatim>\<open>simulate_data_usage\<close> as last defined; \<open>used_data\<close> is the result of
  \<^verbatim>\<open>random.randint(1, 20)\<close>. An \<^verbatim>\<open>eSIM\<close> object is always true in a condition, so
  \<^verbatim>\<open>self.selected_esim and ...\<close> tests for \<^verbatim>\<open>None\<close>.
\<close>

definition simulate_data_usage :: "string \<Rightarrow> int \<Rightarrow> app \<Rightarrow> app" where
  "simulate_data_usage now used_data self =
     (case selected_esim self of
        None \<Rightarrow> self
      | Some i \<Rightarrow>
          if profile_state (esims self ! i) = ''Active''
          then self\<lparr>esims := (esims self)[i := add_data_usage now used_data (esims self ! i)]\<rparr>
          else self)"

text \<open>
  \<^verbatim>\<open>eSIMManagerApp.__init__\<close>: the demonstration profiles, the first of them selected,
  and one call of the ticker.
\<close>

definition app_init ::
  "entropy \<Rightarrow> entropy \<Rightarrow> entropy \<Rightarrow> (nat \<Rightarrow> string) \<Rightarrow> int \<Rightarrow> app" where
  "app_init s1 s2 s3 clock used_data =
     (let es = create_demo_esims s1 s2 s3 clock;
          self = \<lparr>esims = es, selected_esim = (if es \<noteq> [] then Some 0 else None)\<rparr>
      in simulate_data_usage (clock 7) used_data self)"


subsection \<open>Sequences of operations\<close>

text \<open>
  The public methods of \<^verbatim>\<open>eSIM\<close> as values, so that a sequence of calls is a list.
  \<open>apply_op\<close> drops the boolean that the three transitions return.
\<close>

datatype esim_op =
    Activate
  | Deactivate
  | Disable
  | AddDataUsage int
  | ResetDataUsage
  | ChangeOperator string
  | LogEvent string

fun apply_op :: "string \<Rightarrow> esim_op \<Rightarrow> eSIM \<Rightarrow> eSIM" where
  "apply_op now Activate self = snd (activate now self)"
| "apply_op now Deactivate self = snd (deactivate now self)"
| "apply_op now Disable self = snd (disable now self)"
| "apply_op now (AddDataUsage amount) self = add_data_usage now amount self"
| "apply_op now ResetDataUsage self = reset_data_usage now self"
| "apply_op now (ChangeOperator new_operator) self = change_operator now new_operator self"
| "apply_op now (LogEvent description) self = log_event now description self"

text \<open>
  An operation on the controller's state: a method call on the profile at a position of
  \<^verbatim>\<open>esims\<close> (a position that holds no profile has nothing to call), or a firing
  of the ticker with its draw. Each operation comes with the clock text it reads.
\<close>

datatype app_op = Call nat esim_op | Ticker int

fun step :: "string \<times> app_op \<Rightarrow> app \<Rightarrow> app" where
  "step (now, Call i c) self =
     (if i < length (esims self)
      then self\<lparr>esims := (esims self)[i := apply_op now c (esims self ! i)]\<rparr>
      else self)"
| "step (now, Ticker used_data) self = simulate_data_usage now used_data self"

definition run :: "(string \<times> app_op) list \<Rightarrow> app \<Rightarrow> app" where
  "run ops self = fold step ops self"

definition usage_nonneg :: "app \<Rightarrow> bool" where
  "usage_nonneg self = list_all (\<lambda>e. 0 \<le> data_usage e) (esims self)"

text \<open>
  The amounts that the module itself supplies: a non-negative amount to
  \<^verbatim>\<open>add_data_usage\<close>, a draw of \<^verbatim>\<open>random.randint(1, 20)\<close> to the ticker.
\<close>

fun supplied :: "app_op \<Rightarrow> bool" where
  "supplied (Call i (AddDataUsage amount)) = (0 \<le> amount)"
| "supplied (Ticker used_data) = (1 \<le> used_data \<and> used_data \<le> 20)"
| "supplied (Call i c) = True"

fun resets :: "nat \<Rightarrow> app_op \<Rightarrow> bool" where
  "resets i (Call j ResetDataUsage) = (i = j)"
| "resets i c = False"

subsection \<open>Sample inputs\<close>

definition sample_entropy :: "nat \<Rightarrow> entropy" where
  "sample_entropy n =
     \<lparr>randint09 = (\<lambda>k. int ((k + n) mod 10)),
      digest_ki = map (\<lambda>k. of_nat (7 * k + n)) [0..<32],
      digest_opc = map (\<lambda>k. of_nat (13 * k + 5 * n)) [0..<32]\<rparr>"

definition sample_clock :: "nat \<Rightarrow> string" where
  "sample_clock k = ''2025-03-01 09:30:0'' @ str_nat k"

definition sample_esim :: eSIM where
  "sample_esim = eSIM_init (sample_entropy 0) (sample_clock 0) None None None (Some ''Orange'')"

definition sample_app :: app where
  "sample_app = app_init (sample_entropy 1) (sample_entropy 2) (sample_entropy 3) sample_clock 7"

definition sample_ops :: "(string \<times> app_op) list" where
  "sample_ops =
     [(sample_clock 8, Ticker 5),
      (sample_clock 9, Call 1 (AddDataUsage 30)),
      (sample_clock 9, Call 0 ResetDataUsage)]"

definition empty_app :: app where
  "empty_app = \<lparr>esims = [], selected_esim = None\<rparr>"

section \<open>Properties\<close>

subsection \<open>Auxiliary facts\<close>

lemma eSIM_init_simps:
  "profile_state (eSIM_init src now a b c d) = ''Inactive''"
  "data_usage (eSIM_init src now a b c d) = 0"
  "data_limit (eSIM_init src now a b c d) = 10000"
  "operator (eSIM_init src now a b c d) = py_or d (''Op'' @ [CHR 0xE9] @ ''rateurDemo'')"
  "events (eSIM_init src now a b c d) = [''['' @ now @ ''] Cr'' @ [CHR 0xE9] @ ''ation de l'eSIM'']"
  by (simp_all add: eSIM_init_def log_event_def Let_def)

lemma str_int_1700: "str_int 1700 = ''1700''"
  by code_simp

lemma py_str_within:
  "length (str_nat (nat \<bar>i\<bar>)) \<le> max_str_digits \<Longrightarrow> py_str i = Inr (str_int i)"
  by (simp add: py_str_def)

lemma py_str_beyond:
  "max_str_digits < length (str_nat (nat \<bar>i\<bar>)) \<Longrightarrow> py_str i = Inl ValueError"
  by (simp add: py_str_def)

lemma length_str_nat_power10: "length (str_nat (10 ^ k)) = Suc k"
proof (induction k)
  case 0
  show ?case by (simp add: str_nat.simps)
next
  case (Suc k)
  have "(10::nat) ^ Suc k div 10 = 10 ^ k" "(10::nat) ^ Suc k mod 10 = 0"
       "\<not> (10::nat) ^ Suc k < 10"
    by (simp_all add: not_less)
  then have "str_nat (10 ^ Suc k) = str_nat (10 ^ k) @ [''0123456789'' ! 0]"
    by (subst str_nat.simps) (simp only: if_False)
  with Suc show ?case by simp
qed

lemma add_data_usage_call_returns:
  "length (str_nat (nat \<bar>amount\<bar>)) \<le> max_str_digits \<Longrightarrow>
     add_data_usage_call now amount e = (None, add_data_usage now amount e)"
  by (simp add: add_data_usage_call_def add_data_usage_def py_str_within Let_def)

lemma add_data_usage_call_raises:
  "max_str_digits < length (str_nat (nat \<bar>amount\<bar>)) \<Longrightarrow>
     add_data_usage_call now amount e =
       (Some ValueError, e\<lparr>data_usage := data_usage e + amount\<rparr>)"
  by (simp add: add_data_usage_call_def py_str_beyond Let_def)

lemma add_data_usage_call_raises_example:
  "add_data_usage_call now (10 ^ 4300) e =
     (Some ValueError, e\<lparr>data_usage := data_usage e + 10 ^ 4300\<rparr>)"
proof -
  have nn: "(0::int) \<le> 10 ^ 4300" by (rule zero_le_power) simp
  have "nat \<bar>10 ^ 4300 :: int\<bar> = nat (10 ^ 4300)"
    using nn by (simp only: abs_of_nonneg)
  also have "\<dots> = nat 10 ^ 4300" by (rule nat_power_eq) simp
  also have "nat 10 = (10::nat)" by simp
  finally have "nat \<bar>10 ^ 4300 :: int\<bar> = 10 ^ 4300" .
  then have "length (str_nat (nat \<bar>10 ^ 4300 :: int\<bar>)) = Suc 4300"
    by (simp only: length_str_nat_power10)
  then have "max_str_digits < length (str_nat (nat \<bar>10 ^ 4300 :: int\<bar>))"
    by (simp only: max_str_digits_def)
  then show ?thesis by (rule add_data_usage_call_raises)
qed

lemma str_int_examples:
  "str_int 0 = ''0''"
  "str_int 450 = ''450''"
  "str_int 1250 = ''1250''"
  "str_int (- 5) = ''-5''"
  by code_simp+

lemma digit_char: "n < 10 \<Longrightarrow> is_digit (''0123456789'' ! n)"
  unfolding is_digit_def by (rule nth_mem) simp

lemma str_int_digit:
  assumes "0 \<le> d" "d \<le> 9"
  shows "str_int d = [''0123456789'' ! nat d]"
proof -
  from assms have "nat d < 10" by simp
  then have "str_nat (nat d) = [''0123456789'' ! nat d]"
    by (subst str_nat.simps) simp
  with assms show ?thesis by (simp add: str_int_def)
qed

lemma random_digits_shape:
  assumes "\<And>k. 0 \<le> randint k \<and> randint k \<le> 9"
  shows "length (random_digits n randint) = n \<and> list_all is_digit (random_digits n randint)"
proof -
  have eq: "random_digits n randint = map (\<lambda>k. ''0123456789'' ! nat (randint k)) [0..<n]"
    unfolding random_digits_def
    by (induction n) (simp_all add: str_int_digit assms)
  have "nat (randint k) < 10" for k using assms [of k] by linarith
  then show ?thesis unfolding eq by (simp add: list_all_iff digit_char)
qed

lemma hex_char: "n < 16 \<Longrightarrow> is_lower_hex (''0123456789abcdef'' ! n)"
  unfolding is_lower_hex_def by (rule nth_mem) simp

lemma hexdigest_shape:
  "length (hexdigest bs) = 2 * length bs \<and> list_all is_lower_hex (hexdigest bs)"
proof (induction bs)
  case Nil
  show ?case by (simp add: hexdigest_def)
next
  case (Cons b bs)
  have "unat b < 256" using unsigned_less [of b, where ?'a = nat] by simp
  then have "unat b div 16 < 16" by simp
  moreover have "unat b mod 16 < 16" by simp
  ultimately show ?case using Cons by (simp add: hexdigest_def hex_char)
qed



lemma simulate_data_usage_frame:
  "length (esims (simulate_data_usage now r self)) = length (esims self)"
  "selected_esim (simulate_data_usage now r self) = selected_esim self"
  by (simp_all add: simulate_data_usage_def split: option.split)

lemma simulate_data_usage_other:
  "selected_esim self \<noteq> Some j \<Longrightarrow> esims (simulate_data_usage now r self) ! j = esims self ! j"
  by (auto simp: simulate_data_usage_def split: option.split)

lemma simulate_data_usage_not_active:
  "selected_esim self = Some i \<Longrightarrow> profile_state (esims self ! i) \<noteq> ''Active'' \<Longrightarrow>
     simulate_data_usage now r self = self"
  by (simp add: simulate_data_usage_def)

lemma simulate_data_usage_active:
  "selected_esim self = Some i \<Longrightarrow> i < length (esims self) \<Longrightarrow>
   profile_state (esims self ! i) = ''Active'' \<Longrightarrow>
     esims (simulate_data_usage now r self) ! i = add_data_usage now r (esims self ! i)"
  by (simp add: simulate_data_usage_def)

lemma sample_app_simps:
  "length (esims sample_app) = 3"
  "selected_esim sample_app = Some 0"
  "map profile_state (esims sample_app) = [''Active'', ''Inactive'', ''Active'']"
  "map data_usage (esims sample_app) = [1257, 0, 450]"
  "map operator (esims sample_app) = [''Orange'', ''SFR'', ''Bouygues Telecom'']"
  by (simp_all add: sample_app_def app_init_def simulate_data_usage_def create_demo_esims_def
        Let_def activate_def add_data_usage_def log_event_def eSIM_init_simps py_or_def)

lemma sample_app_nth:
  "profile_state (esims sample_app ! 0) = ''Active''"
  "profile_state (esims sample_app ! 2) = ''Active''"
  "data_usage (esims sample_app ! 0) = 1257"
  "data_usage (esims sample_app ! 1) = 0"
  "operator (esims sample_app ! 1) = ''SFR''"
  by (simp_all add: sample_app_def app_init_def simulate_data_usage_def create_demo_esims_def
        Let_def activate_def add_data_usage_def log_event_def eSIM_init_simps py_or_def)

lemma create_demo_esims_usage:
  "map data_usage (create_demo_esims s1 s2 s3 clock) = [1250, 0, 450]"
  by (simp add: create_demo_esims_def Let_def activate_def add_data_usage_def log_event_def
        eSIM_init_simps)

lemma data_usage_apply_op:
  "data_usage (apply_op now c e) =
     (case c of AddDataUsage amount \<Rightarrow> data_usage e + amount
              | ResetDataUsage \<Rightarrow> 0
              | _ \<Rightarrow> data_usage e)"
  by (cases c)
     (simp_all add: activate_def deactivate_def disable_def add_data_usage_def
        reset_data_usage_def change_operator_def log_event_def Let_def)

lemma list_all_update:
  "list_all P xs \<Longrightarrow> P v \<Longrightarrow> list_all P (xs[i := v])"
  by (induction xs arbitrary: i) (auto split: nat.split)

lemma simulate_data_usage_nonneg:
  assumes "usage_nonneg self" and "0 \<le> r"
  shows "usage_nonneg (simulate_data_usage now r self)"
proof (cases "selected_esim self")
  case None
  with assms show ?thesis by (simp add: simulate_data_usage_def)
next
  case (Some i)
  show ?thesis
  proof (cases "i < length (esims self)")
    case True
    with assms have "0 \<le> data_usage (esims self ! i)"
      by (simp add: usage_nonneg_def list_all_length)
    with assms Some show ?thesis
      by (simp add: simulate_data_usage_def usage_nonneg_def list_all_update
            add_data_usage_def log_event_def)
  next
    case False
    with assms Some show ?thesis
      by (simp add: simulate_data_usage_def usage_nonneg_def list_update_beyond)
  qed
qed

lemma step_nonneg:
  assumes "usage_nonneg self" and "supplied c"
  shows "usage_nonneg (step (now, c) self)"
proof (cases c)
  case (Ticker r)
  with assms show ?thesis by (simp add: simulate_data_usage_nonneg)
next
  case (Call i m)
  show ?thesis
  proof (cases "i < length (esims self)")
    case False
    with assms Call show ?thesis by simp
  next
    case True
    with assms have e: "0 \<le> data_usage (esims self ! i)"
      by (simp add: usage_nonneg_def list_all_length)
    have "0 \<le> data_usage (apply_op now m (esims self ! i))"
      unfolding data_usage_apply_op using e assms(2) Call by (cases m) simp_all
    with assms Call True show ?thesis
      by (simp add: usage_nonneg_def list_all_update)
  qed
qed

lemma run_nonneg:
  "usage_nonneg self \<Longrightarrow> list_all (\<lambda>x. supplied (snd x)) ops \<Longrightarrow> usage_nonneg (run ops self)"
proof (induction ops arbitrary: self)
  case Nil
  then show ?case by (simp add: run_def)
next
  case (Cons x ops)
  obtain now c where x: "x = (now, c)" by (cases x)
  with Cons.prems have "usage_nonneg (step (now, c) self)" by (simp add: step_nonneg)
  with Cons.IH [of "step (now, c) self"] Cons.prems x show ?case by (simp add: run_def)
qed

lemma step_mono:
  assumes "supplied c" and "i < length (esims self)" and "\<not> resets i c"
  shows "data_usage (esims self ! i) \<le> data_usage (esims (step (now, c) self) ! i)"
proof (cases c)
  case (Ticker r)
  show ?thesis
  proof (cases "selected_esim self = Some i \<and> profile_state (esims self ! i) = ''Active''")
    case True
    with assms Ticker show ?thesis
      by (simp add: simulate_data_usage_def add_data_usage_def log_event_def)
  next
    case False
    have "esims (simulate_data_usage now r self) ! i = esims self ! i"
    proof (cases "selected_esim self = Some i")
      case True
      with False show ?thesis by (simp add: simulate_data_usage_def)
    next
      case False
      then show ?thesis by (auto simp: simulate_data_usage_def split: option.split)
    qed
    with Ticker show ?thesis by simp
  qed
next
  case (Call j m)
  show ?thesis
  proof (cases "j = i")
    case False
    with Call show ?thesis by simp
  next
    case True
    with assms Call
    have eq: "esims (step (now, c) self) ! i = apply_op now m (esims self ! i)"
      by simp
    show ?thesis
      unfolding eq data_usage_apply_op using assms Call True by (cases m) simp_all
  qed
qed

subsection \<open>The profile's transitions\<close>

text \<open>
  C1. \<^verbatim>\<open>activate\<close> returns \<^verbatim>\<open>True\<close> exactly when the state is not \<^verbatim>\<open>"Active"\<close>, whatever
  else it is. It then sets the state to \<^verbatim>\<open>"Active"\<close> and appends the one event
  \<^verbatim>\<open>Activation du profil\<close>, touching no other field. On an active profile it returns
  \<^verbatim>\<open>False\<close> and the profile, event log included, is as before.
\<close>

theorem activate_iff_not_active:
  "fst (activate now e) = (profile_state e \<noteq> ''Active'')
   \<and> (profile_state e \<noteq> ''Active'' \<longrightarrow>
        snd (activate now e) =
          e\<lparr>profile_state := ''Active'',
            events := events e @ [''['' @ now @ ''] Activation du profil'']\<rparr>)
   \<and> (profile_state e = ''Active'' \<longrightarrow> activate now e = (False, e))"
  by (simp add: activate_def log_event_def)

text \<open>
  On a fresh profile the first call succeeds and adds one event; the second call returns
  \<^verbatim>\<open>False\<close> and changes nothing.
\<close>

theorem activate_iff_not_active_witness:
  "profile_state sample_esim \<noteq> ''Active''
   \<and> fst (activate (sample_clock 1) sample_esim)
   \<and> profile_state (snd (activate (sample_clock 1) sample_esim)) = ''Active''
   \<and> length (events (snd (activate (sample_clock 1) sample_esim))) = length (events sample_esim) + 1
   \<and> activate (sample_clock 2) (snd (activate (sample_clock 1) sample_esim))
       = (False, snd (activate (sample_clock 1) sample_esim))"
  using activate_iff_not_active [of "sample_clock 1" sample_esim]
        activate_iff_not_active [of "sample_clock 2" "snd (activate (sample_clock 1) sample_esim)"]
  by (simp add: sample_esim_def eSIM_init_simps)

text \<open>
  C9. \<^verbatim>\<open>"Disabled"\<close> is not terminal. On a disabled profile \<^verbatim>\<open>activate\<close> returns
  \<^verbatim>\<open>True\<close> and leaves it active, \<^verbatim>\<open>deactivate\<close> returns \<^verbatim>\<open>True\<close> and leaves it inactive,
  each with its one event; and the usage and operator methods act as on any profile.
\<close>

theorem disabled_not_terminal:
  "profile_state e = ''Disabled'' \<Longrightarrow>
     activate now e =
       (True, e\<lparr>profile_state := ''Active'',
                events := events e @ [''['' @ now @ ''] Activation du profil'']\<rparr>)
     \<and> deactivate now e =
       (True, e\<lparr>profile_state := ''Inactive'',
                events := events e @ [''['' @ now @ ''] D'' @ [CHR 0xE9] @ ''sactivation du profil'']\<rparr>)
     \<and> data_usage (add_data_usage now amount e) = data_usage e + amount
     \<and> data_usage (reset_data_usage now e) = 0
     \<and> operator (change_operator now name e) = name"
  by (simp add: activate_def deactivate_def log_event_def add_data_usage_def reset_data_usage_def
        change_operator_def Let_def)

theorem disabled_not_terminal_witness:
  "profile_state (snd (disable (sample_clock 1) sample_esim)) = ''Disabled''
   \<and> fst (activate (sample_clock 2) (snd (disable (sample_clock 1) sample_esim)))
   \<and> profile_state (snd (activate (sample_clock 2) (snd (disable (sample_clock 1) sample_esim))))
       = ''Active''
   \<and> fst (deactivate (sample_clock 2) (snd (disable (sample_clock 1) sample_esim)))
   \<and> profile_state (snd (deactivate (sample_clock 2) (snd (disable (sample_clock 1) sample_esim))))
       = ''Inactive''"
proof -
  have d: "profile_state (snd (disable (sample_clock 1) sample_esim)) = ''Disabled''"
    by (simp add: disable_def log_event_def sample_esim_def eSIM_init_simps)
  show ?thesis
    using d disabled_not_terminal [OF d, of "sample_clock 2" 0 "''SFR''"] by simp
qed

subsection \<open>Usage and operator\<close>

text \<open>
  C4, as the code has it. \<^verbatim>\<open>add_data_usage\<close> checks nothing: for every amount that
  the interpreter can write as text (at most 4300 digits), negative ones included, the
  call returns without an exception, adds the amount to \<^verbatim>\<open>data_usage\<close> and appends the
  one event that carries \<^verbatim>\<open>str(amount)\<close>; no other field changes.
\<close>

theorem add_data_usage_unchecked:
  "length (str_nat (nat \<bar>amount\<bar>)) \<le> max_str_digits \<Longrightarrow>
     add_data_usage_call now amount e =
       (None,
        e\<lparr>data_usage := data_usage e + amount,
          events := events e @
            [''['' @ now @ ''] Consommation de '' @ str_int amount @ '' Mo de donn'' @ [CHR 0xE9]
               @ ''es'']\<rparr>)"
  by (simp add: add_data_usage_call_def py_str_within log_event_def Let_def)

theorem add_data_usage_unchecked_witness:
  "length (str_nat (nat \<bar>- 5 :: int\<bar>)) \<le> max_str_digits
   \<and> fst (add_data_usage_call (sample_clock 1) (- 5) sample_esim) = None
   \<and> data_usage (snd (add_data_usage_call (sample_clock 1) (- 5) sample_esim)) = - 5
   \<and> length (events (snd (add_data_usage_call (sample_clock 1) (- 5) sample_esim))) = 2"
proof -
  have h: "length (str_nat (nat \<bar>- 5 :: int\<bar>)) \<le> max_str_digits"
    by (simp add: str_nat.simps max_str_digits_def)
  show ?thesis
    using h add_data_usage_unchecked [OF h, of "sample_clock 1" sample_esim]
    by (simp add: sample_esim_def eSIM_init_simps)
qed

text \<open>
  With the amount \<open>-5\<close> on a fresh profile the call returns without an exception, the
  counter becomes \<open>-5\<close> and the event log grows: nothing is rejected.
\<close>

theorem add_data_usage_negative_counterexample:
  "fst (add_data_usage_call (sample_clock 1) (- 5) sample_esim) = None
   \<and> data_usage (snd (add_data_usage_call (sample_clock 1) (- 5) sample_esim)) = - 5
   \<and> events (snd (add_data_usage_call (sample_clock 1) (- 5) sample_esim)) \<noteq> events sample_esim"
  by (simp add: add_data_usage_call_def py_str_def str_nat.simps max_str_digits_def log_event_def
        Let_def sample_esim_def eSIM_init_simps)

text \<open>
  C5. On a freshly constructed profile, \<^verbatim>\<open>add_data_usage(1250)\<close> and then
  \<^verbatim>\<open>add_data_usage(450)\<close> leave \<^verbatim>\<open>data_usage\<close> at 1700; \<^verbatim>\<open>reset_data_usage()\<close> then
  sets it to 0 and appends exactly one event, whose text holds the old value 1700.
\<close>

theorem usage_1250_450_reset:
  "(let e0 = eSIM_init src t0 a b c d;
        e2 = add_data_usage t2 450 (add_data_usage t1 1250 e0);
        e3 = reset_data_usage t3 e2
    in data_usage e2 = 1700
       \<and> data_usage e3 = 0
       \<and> events e3 = events e2 @
           [''['' @ t3 @ ''] R'' @ [CHR 0xE9] @ ''initialisation du compteur de donn'' @ [CHR 0xE9]
              @ ''es (ancien: '' @ ''1700'' @ '' Mo)''])"
  by (simp add: Let_def add_data_usage_def reset_data_usage_def log_event_def eSIM_init_simps
        str_int_1700)

text \<open>
  C8, as the code has it. \<^verbatim>\<open>eSIM.change_operator\<close> accepts every name, the empty one
  included: it replaces the operator and appends the one event that records the old and
  the new name. The test for an empty name is in the controller's command
  \<^verbatim>\<open>eSIMManagerApp.change_operator\<close>, which on an empty or cancelled answer changes
  nothing.
\<close>

theorem change_operator_unchecked:
  "change_operator now name e =
     e\<lparr>operator := name,
       events := events e @
         [''['' @ now @ ''] Changement d'op'' @ [CHR 0xE9] @ ''rateur: '' @ operator e @ '' -> '' @ name]\<rparr>
   \<and> app_change_operator now (Some []) self = self
   \<and> app_change_operator now None self = self"
  by (simp add: change_operator_def log_event_def app_change_operator_def Let_def
        split: option.split)

text \<open>
  With the empty name on a fresh profile of operator \<^verbatim>\<open>Orange\<close>, the operator becomes
  empty and the event log grows.
\<close>

theorem change_operator_empty_counterexample:
  "operator (change_operator (sample_clock 1) [] sample_esim) = []
   \<and> operator sample_esim = ''Orange''
   \<and> events (change_operator (sample_clock 1) [] sample_esim) \<noteq> events sample_esim"
  by (simp add: change_operator_def log_event_def sample_esim_def eSIM_init_simps py_or_def Let_def)

subsection \<open>The generators\<close>

text \<open>
  C6. Whatever \<^verbatim>\<open>random.randint(0, 9)\<close> returns (a value from 0 to 9 at every call) and
  whatever the 32 bytes of the SHA-256 digest are: the IMSI is \<^verbatim>\<open>20801\<close> and ten more
  digits, 15 digits in all; the ICCID is \<^verbatim>\<open>8933\<close> and fifteen more digits, 19 in all; the
  MSISDN is \<^verbatim>\<open>336\<close> and eight more digits, 11 in all; an authentication key is 32
  characters, each a lowercase hexadecimal digit.
\<close>

theorem generated_identifier_shapes:
  assumes "\<And>k. 0 \<le> randint k \<and> randint k \<le> 9" and "length digest = 32"
  shows "length (generate_imsi randint) = 15
       \<and> take 5 (generate_imsi randint) = ''20801''
       \<and> list_all is_digit (generate_imsi randint)
       \<and> length (generate_iccid randint) = 19
       \<and> take 4 (generate_iccid randint) = ''8933''
       \<and> list_all is_digit (generate_iccid randint)
       \<and> length (generate_msisdn randint) = 11
       \<and> take 3 (generate_msisdn randint) = ''336''
       \<and> list_all is_digit (generate_msisdn randint)
       \<and> length (generate_auth_key digest) = 32
       \<and> list_all is_lower_hex (generate_auth_key digest)"
proof -
  note rd = random_digits_shape [OF assms(1)]
  have imsi: "length (generate_imsi randint) = 15 \<and> take 5 (generate_imsi randint) = ''20801''
       \<and> list_all is_digit (generate_imsi randint)"
    using rd [of 10] by (simp add: generate_imsi_def Let_def is_digit_def)
  have iccid: "length (generate_iccid randint) = 19 \<and> take 4 (generate_iccid randint) = ''8933''
       \<and> list_all is_digit (generate_iccid randint)"
    using rd [of 15] by (simp add: generate_iccid_def Let_def is_digit_def)
  have msisdn: "length (generate_msisdn randint) = 11 \<and> take 3 (generate_msisdn randint) = ''336''
       \<and> list_all is_digit (generate_msisdn randint)"
    using rd [of 8] by (simp add: generate_msisdn_def is_digit_def)
  have key: "length (generate_auth_key digest) = 32 \<and> list_all is_lower_hex (generate_auth_key digest)"
    using hexdigest_shape [of digest] assms(2)
    by (auto simp: generate_auth_key_def list_all_iff dest: in_set_takeD)
  from imsi iccid msisdn key show ?thesis by simp
qed

theorem generated_identifier_shapes_witness:
  "(\<forall>k. 0 \<le> randint09 (sample_entropy 0) k \<and> randint09 (sample_entropy 0) k \<le> 9)
   \<and> length (digest_ki (sample_entropy 0)) = 32
   \<and> length (generate_imsi (randint09 (sample_entropy 0))) = 15
   \<and> list_all is_digit (generate_imsi (randint09 (sample_entropy 0)))
   \<and> length (generate_iccid (randint09 (sample_entropy 0))) = 19
   \<and> length (generate_msisdn (randint09 (sample_entropy 0))) = 11
   \<and> length (generate_auth_key (digest_ki (sample_entropy 0))) = 32
   \<and> list_all is_lower_hex (generate_auth_key (digest_ki (sample_entropy 0)))"
proof -
  have r: "\<And>k. 0 \<le> randint09 (sample_entropy 0) k \<and> randint09 (sample_entropy 0) k \<le> 9"
    by (simp add: sample_entropy_def)
  have d: "length (digest_ki (sample_entropy 0)) = 32"
    by (simp add: sample_entropy_def)
  show ?thesis
    using r d generated_identifier_shapes [OF r d] by simp
qed


subsection \<open>Selection\<close>




subsection \<open>The ticker\<close>

text \<open>
  C10. One firing of the ticker, with a draw \<open>r\<close> from 1 to 20, keeps the number of
  profiles and \<^verbatim>\<open>selected_esim\<close>. The profile at a position is changed only if it is
  the selected one and active: then its \<^verbatim>\<open>data_usage\<close> grows by \<open>r\<close>, its event log
  gets one more entry, and its other fields stay. Every other profile is as before.
\<close>

theorem ticker_frame:
  assumes "1 \<le> r" and "r \<le> 20"
  shows
   "(let self' = simulate_data_usage now r self in
      length (esims self') = length (esims self)
      \<and> selected_esim self' = selected_esim self
      \<and> (\<forall>j < length (esims self).
            if selected_esim self = Some j \<and> profile_state (esims self ! j) = ''Active''
            then esims self' ! j =
                   (esims self ! j)
                     \<lparr>data_usage := data_usage (esims self ! j) + r,
                      events := events (esims self ! j) @
                        [''['' @ now @ ''] Consommation de '' @ str_int r @ '' Mo de donn''
                           @ [CHR 0xE9] @ ''es'']\<rparr>
                 \<and> data_usage (esims self ! j) < data_usage (esims self' ! j)
                 \<and> data_usage (esims self' ! j) \<le> data_usage (esims self ! j) + 20
            else esims self' ! j = esims self ! j))"
proof -
  have "esims (simulate_data_usage now r self) ! j =
          (esims self ! j)
            \<lparr>data_usage := data_usage (esims self ! j) + r,
             events := events (esims self ! j) @
               [''['' @ now @ ''] Consommation de '' @ str_int r @ '' Mo de donn''
                  @ [CHR 0xE9] @ ''es'']\<rparr>
        \<and> data_usage (esims self ! j) < data_usage (esims (simulate_data_usage now r self) ! j)
        \<and> data_usage (esims (simulate_data_usage now r self) ! j) \<le> data_usage (esims self ! j) + 20"
    if "j < length (esims self)" "selected_esim self = Some j"
       "profile_state (esims self ! j) = ''Active''" for j
    using that assms
    by (simp add: simulate_data_usage_active add_data_usage_def log_event_def)
  moreover have "esims (simulate_data_usage now r self) ! j = esims self ! j"
    if "\<not> (selected_esim self = Some j \<and> profile_state (esims self ! j) = ''Active'')" for j
    using that
    by (cases "selected_esim self = Some j")
       (simp_all add: simulate_data_usage_other simulate_data_usage_not_active)
  ultimately show ?thesis
    unfolding Let_def using assms by (simp add: simulate_data_usage_frame)
qed

theorem ticker_frame_witness:
  "(1::int) \<le> 5 \<and> (5::int) \<le> 20
   \<and> selected_esim sample_app = Some 0
   \<and> length (esims (simulate_data_usage (sample_clock 8) 5 sample_app)) = 3
   \<and> selected_esim (simulate_data_usage (sample_clock 8) 5 sample_app) = Some 0
   \<and> data_usage (esims (simulate_data_usage (sample_clock 8) 5 sample_app) ! 0) = 1262
   \<and> esims (simulate_data_usage (sample_clock 8) 5 sample_app) ! 1 = esims sample_app ! 1
   \<and> esims (simulate_data_usage (sample_clock 8) 5 sample_app) ! 2 = esims sample_app ! 2"
proof -
  have r: "(1::int) \<le> 5" "(5::int) \<le> 20" by simp_all
  note f = ticker_frame [OF r, of "sample_clock 8" sample_app, unfolded Let_def]
  note g = f [THEN conjunct2, THEN conjunct2, rule_format]
  show ?thesis
    using f g [of 0] g [of 1] g [of 2]
    by (simp add: sample_app_simps sample_app_nth)
qed

text \<open>
  C2, as the code has it. A firing gives usage to the selected profile alone, and only
  if that profile is active: the profile is then what \<^verbatim>\<open>add_data_usage\<close> makes of it
  with the draw, an integer from 1 to 20. A profile that is not selected gets nothing,
  active or not; with no selection the controller is unchanged.
\<close>

theorem ticker_selected_only:
  assumes "1 \<le> r" and "r \<le> 20"
  shows
   "(selected_esim self = None \<longrightarrow> simulate_data_usage now r self = self)
    \<and> (\<forall>i < length (esims self).
          (selected_esim self = Some i \<and> profile_state (esims self ! i) = ''Active'' \<longrightarrow>
             esims (simulate_data_usage now r self) ! i = add_data_usage now r (esims self ! i)
           \<and> data_usage (esims (simulate_data_usage now r self) ! i) - data_usage (esims self ! i)
               \<in> {1..20})
        \<and> (selected_esim self \<noteq> Some i \<or> profile_state (esims self ! i) \<noteq> ''Active'' \<longrightarrow>
             esims (simulate_data_usage now r self) ! i = esims self ! i))"
proof -
  have none: "selected_esim self = None \<longrightarrow> simulate_data_usage now r self = self"
    by (simp add: simulate_data_usage_def)
  have act: "esims (simulate_data_usage now r self) ! i = add_data_usage now r (esims self ! i)
           \<and> data_usage (esims (simulate_data_usage now r self) ! i) - data_usage (esims self ! i)
               \<in> {1..20}"
    if "i < length (esims self)" "selected_esim self = Some i"
       "profile_state (esims self ! i) = ''Active''" for i
    using that assms
    by (simp add: simulate_data_usage_active add_data_usage_def log_event_def)
  have other: "esims (simulate_data_usage now r self) ! i = esims self ! i"
    if "selected_esim self \<noteq> Some i \<or> profile_state (esims self ! i) \<noteq> ''Active''" for i
    using that
    by (cases "selected_esim self = Some i")
       (simp_all add: simulate_data_usage_other simulate_data_usage_not_active)
  from none act other show ?thesis by blast
qed

theorem ticker_selected_only_witness:
  "(1::int) \<le> 5 \<and> (5::int) \<le> 20
   \<and> selected_esim sample_app = Some 0
   \<and> profile_state (esims sample_app ! 0) = ''Active''
   \<and> esims (simulate_data_usage (sample_clock 8) 5 sample_app) ! 0
       = add_data_usage (sample_clock 8) 5 (esims sample_app ! 0)
   \<and> data_usage (esims (simulate_data_usage (sample_clock 8) 5 sample_app) ! 0) = 1262
   \<and> esims (simulate_data_usage (sample_clock 8) 5 sample_app) ! 1 = esims sample_app ! 1
   \<and> simulate_data_usage (sample_clock 8) 5 empty_app = empty_app"
proof -
  have r: "(1::int) \<le> 5" "(5::int) \<le> 20" by simp_all
  note f = ticker_selected_only [OF r, of sample_app "sample_clock 8"]
  note g = f [THEN conjunct2, rule_format]
  note h = ticker_selected_only [OF r, of empty_app "sample_clock 8", THEN conjunct1]
  show ?thesis
    using g [of 0] g [of 1] h
    by (simp add: sample_app_simps sample_app_nth empty_app_def add_data_usage_def log_event_def)
qed

text \<open>
  After start-up the first demonstration profile is selected; the third one is active
  too, and a firing leaves it as it was.
\<close>

theorem ticker_all_active_counterexample:
  "profile_state (esims sample_app ! 2) = ''Active''
   \<and> esims (simulate_data_usage (sample_clock 8) 5 sample_app) ! 2 = esims sample_app ! 2"
  by (simp add: sample_app_nth simulate_data_usage_other sample_app_simps)


subsection \<open>The usage counter over sequences of operations\<close>

text \<open>
  C3, as the code has it. If every amount passed to \<^verbatim>\<open>add_data_usage\<close> is non-negative
  and every draw of the ticker is from 1 to 20, then from a state in which every
  \<^verbatim>\<open>data_usage\<close> is non-negative every \<^verbatim>\<open>data_usage\<close> is non-negative after each
  operation of a sequence; and an operation lowers the \<^verbatim>\<open>data_usage\<close> of a profile
  only if it is \<^verbatim>\<open>reset_data_usage\<close> on that profile. The counter of a new profile is 0,
  and the controller's state after start-up has non-negative counters.
\<close>

theorem usage_nonneg_supplied:
  "(usage_nonneg self \<and> list_all (\<lambda>x. supplied (snd x)) ops \<longrightarrow>
      usage_nonneg (run (take k ops) self))
   \<and> (supplied c \<and> i < length (esims self) \<and> \<not> resets i c \<longrightarrow>
        data_usage (esims self ! i) \<le> data_usage (esims (step (now, c) self) ! i))
   \<and> data_usage (eSIM_init src t a b c' d) = 0
   \<and> (1 \<le> r \<and> r \<le> 20 \<longrightarrow> usage_nonneg (app_init s1 s2 s3 clock r))"
proof -
  have "list_all (\<lambda>x. supplied (snd x)) (take k ops)" if "list_all (\<lambda>x. supplied (snd x)) ops"
    using that by (auto simp: list_all_iff dest: in_set_takeD)
  then have 1: "usage_nonneg self \<and> list_all (\<lambda>x. supplied (snd x)) ops \<longrightarrow>
      usage_nonneg (run (take k ops) self)"
    by (simp add: run_nonneg)
  have 2: "supplied c \<and> i < length (esims self) \<and> \<not> resets i c \<longrightarrow>
        data_usage (esims self ! i) \<le> data_usage (esims (step (now, c) self) ! i)"
    by (simp add: step_mono)
  have "usage_nonneg \<lparr>esims = create_demo_esims s1 s2 s3 clock,
          selected_esim = (if create_demo_esims s1 s2 s3 clock \<noteq> [] then Some 0 else None)\<rparr>"
    using create_demo_esims_usage [of s1 s2 s3 clock]
    by (auto simp: usage_nonneg_def list_all_iff)
  then have 3: "1 \<le> r \<and> r \<le> 20 \<longrightarrow> usage_nonneg (app_init s1 s2 s3 clock r)"
    by (simp add: app_init_def Let_def simulate_data_usage_nonneg)
  from 1 2 3 show ?thesis by (simp add: eSIM_init_simps)
qed

theorem usage_nonneg_supplied_witness:
  "usage_nonneg sample_app
   \<and> list_all (\<lambda>x. supplied (snd x)) sample_ops
   \<and> usage_nonneg (run (take 2 sample_ops) sample_app)
   \<and> usage_nonneg (run (take 3 sample_ops) sample_app)
   \<and> supplied (Ticker 5) \<and> 0 < length (esims sample_app) \<and> \<not> resets 0 (Ticker 5)
   \<and> data_usage (esims sample_app ! 0)
       \<le> data_usage (esims (step (sample_clock 8, Ticker 5) sample_app) ! 0)"
proof -
  have a: "usage_nonneg sample_app"
    using usage_nonneg_supplied [where r = 7 and ?s1.0 = "sample_entropy 1"
        and ?s2.0 = "sample_entropy 2" and ?s3.0 = "sample_entropy 3" and clock = sample_clock]
    by (simp add: sample_app_def)
  have b: "list_all (\<lambda>x. supplied (snd x)) sample_ops"
    by (simp add: sample_ops_def)
  have c: "supplied (Ticker 5) \<and> 0 < length (esims sample_app) \<and> \<not> resets 0 (Ticker 5)"
    by (simp add: sample_app_simps)
  show ?thesis
    using a b c
      usage_nonneg_supplied [where self = sample_app and ops = sample_ops and k = 2]
      usage_nonneg_supplied [where self = sample_app and ops = sample_ops and k = 3
        and c = "Ticker 5" and i = 0 and now = "sample_clock 8"]
    by simp
qed

text \<open>
  A negative amount is accepted: after \<^verbatim>\<open>add_data_usage(-5)\<close> on the second
  demonstration profile, whose counter is 0, a counter is negative.
\<close>

theorem usage_negative_amount_counterexample:
  "\<not> usage_nonneg (run [(sample_clock 8, Call 1 (AddDataUsage (- 5)))] sample_app)"
proof
  let ?after = "run [(sample_clock 8, Call 1 (AddDataUsage (- 5)))] sample_app"
  assume "usage_nonneg ?after"
  have "length (esims sample_app) = 3" and "data_usage (esims sample_app ! 1) = 0"
    by (simp_all add: sample_app_def app_init_def simulate_data_usage_def create_demo_esims_def
          Let_def activate_def add_data_usage_def log_event_def eSIM_init_simps)
  then have v: "data_usage (esims ?after ! 1) = - 5" and l: "length (esims ?after) = 3"
    by (simp_all add: run_def add_data_usage_def log_event_def)
  from l have "esims ?after ! 1 \<in> set (esims ?after)"
    by (intro nth_mem) simp
  with \<open>usage_nonneg ?after\<close> have "0 \<le> data_usage (esims ?after ! 1)"
    by (simp add: usage_nonneg_def list_all_iff)
  with v show False by simp
qed


end
